theory Spec2Isabelle
  imports Main "HOL-Library.Word" "HOL-Library.Sublist"
begin

section \<open>The yorisoi-voice-ai server (server.mjs)\<close>

subsection \<open>Strings\<close>

text \<open>
  A JavaScript string is a sequence of UTF-16 code units. Every character of the
  server's word lists and messages lies in the Basic Multilingual Plane, so each one is
  a single code unit. String literals of the source are written as code-unit lists.
\<close>

type_synonym code_unit = "16 word"
type_synonym js_string = "code_unit list"

text \<open>
  \<^verbatim>\<open>text.includes(w)\<close> of \<^verbatim>\<open>String.prototype\<close>: does \<open>w\<close> start at some position
  of \<open>text\<close>; the empty search string is found in every string.
\<close>

fun str_includes :: "js_string \<Rightarrow> js_string \<Rightarrow> bool" where
  "str_includes [] w = (w = [])"
| "str_includes (c # cs) w = (prefix w (c # cs) \<or> str_includes cs w)"

subsection \<open>Module state and dictionaries\<close>

text \<open>
  \<^verbatim>\<open>let emotionScore = 70; let emotionHistory = [];\<close>
  The score is a JavaScript number; it starts at 70, moves in steps of 5 and is clamped
  on every update, so it is always a small integer that a double holds exactly: \<open>int\<close>.
\<close>

record history_entry =
  time :: int
  score :: int

record server_state =
  emotionScore :: int
  emotionHistory :: "history_entry list"

definition initial_state :: server_state where
  "initial_state = \<lparr>emotionScore = 70, emotionHistory = []\<rparr>"

text \<open>
  The word lists, in the order of the source. \<^verbatim>\<open>negativeWords\<close>: tsukare, tsurai, fuan,
  kanashii, kowai, mou-dame, kietai, shinitai, iyada. \<^verbatim>\<open>positiveWords\<close>: ureshii,
  tanoshii, anshin, daijoubu, dekita, arigatou, hotto. \<^verbatim>\<open>dangerWords\<close>: shinitai, kietai,
  jisatsu, genkai, mou-muri.
\<close>

definition negativeWords :: "js_string list" where
  "negativeWords =
    [[0x75B2, 0x308C],
     [0x3064, 0x3089, 0x3044],
     [0x4E0D, 0x5B89],
     [0x60B2, 0x3057, 0x3044],
     [0x3053, 0x308F, 0x3044],
     [0x3082, 0x3046, 0x3060, 0x3081],
     [0x6D88, 0x3048, 0x305F, 0x3044],
     [0x6B7B, 0x306B, 0x305F, 0x3044],
     [0x3044, 0x3084, 0x3060]]"

definition positiveWords :: "js_string list" where
  "positiveWords =
    [[0x3046, 0x308C, 0x3057, 0x3044],
     [0x697D, 0x3057, 0x3044],
     [0x5B89, 0x5FC3],
     [0x5927, 0x4E08, 0x592B],
     [0x3067, 0x304D, 0x305F],
     [0x3042, 0x308A, 0x304C, 0x3068, 0x3046],
     [0x307B, 0x3063, 0x3068]]"

definition dangerWords :: "js_string list" where
  "dangerWords =
    [[0x6B7B, 0x306B, 0x305F, 0x3044],
     [0x6D88, 0x3048, 0x305F, 0x3044],
     [0x81EA, 0x6BBA],
     [0x9650, 0x754C],
     [0x3082, 0x3046, 0x7121, 0x7406]]"

subsection \<open>updateEmotionScore\<close>

text \<open>
  The two \<^verbatim>\<open>for (const w of ...)\<close> loops are folds over the word lists, each word
  tested once; \<^verbatim>\<open>Date.now()\<close> is the argument \<open>now\<close>. The function returns the
  score and the module state it leaves behind.
\<close>

definition updateEmotionScore :: "js_string \<Rightarrow> int \<Rightarrow> server_state \<Rightarrow> int \<times> server_state" where
  "updateEmotionScore text now s =
    (let score0 = emotionScore s;
         score1 = foldl (\<lambda>sc w. if str_includes text w then sc - 5 else sc) score0 negativeWords;
         score2 = foldl (\<lambda>sc w. if str_includes text w then sc + 5 else sc) score1 positiveWords;
         score3 = max 0 (min 100 score2)
     in (score3, \<lparr>emotionScore = score3,
                  emotionHistory = emotionHistory s @ [\<lparr>time = now, score = score3\<rparr>]\<rparr>))"

subsection \<open>detectICF\<close>

text \<open>
  \<^verbatim>\<open>icfTags\<close> is parsed from \<^verbatim>\<open>./icf-tags.json\<close> at start-up; the file is not part
  of the sources, so the dictionary is a parameter: one \<^verbatim>\<open>{code, label}\<close> entry under
  each of the eight category names the code reads.
\<close>

record icf_tag =
  code :: js_string
  label :: js_string

record icf_dictionary =
  sleep :: icf_tag
  emotion :: icf_tag
  stress :: icf_tag
  learning :: icf_tag
  school :: icf_tag
  relationships :: icf_tag
  family :: icf_tag
  work :: icf_tag

text \<open>
  Each \<^verbatim>\<open>if (...) detected.push(...)\<close> of the source is one line of the \<open>let\<close>. The
  substrings are single kanji or short words: sleep (U+7720, U+5BDD), emotion (fuan,
  U+6016), stress (U+75B2, U+5FD9), learning (benkyou, tesuto), school (gakkou),
  relationships (U+53CB, ningen-kankei), family (U+5BB6, U+89AA), work (shigoto, shokuba).
\<close>

definition detectICF :: "icf_dictionary \<Rightarrow> js_string \<Rightarrow> icf_tag list" where
  "detectICF icfTags text =
    (let detected = [];
         detected = (if str_includes text [0x7720] \<or> str_includes text [0x5BDD]
                     then detected @ [sleep icfTags] else detected);
         detected = (if str_includes text [0x4E0D, 0x5B89] \<or> str_includes text [0x6016]
                     then detected @ [emotion icfTags] else detected);
         detected = (if str_includes text [0x75B2] \<or> str_includes text [0x5FD9]
                     then detected @ [stress icfTags] else detected);
         detected = (if str_includes text [0x52C9, 0x5F37] \<or> str_includes text [0x30C6, 0x30B9, 0x30C8]
                     then detected @ [learning icfTags] else detected);
         detected = (if str_includes text [0x5B66, 0x6821]
                     then detected @ [school icfTags] else detected);
         detected = (if str_includes text [0x53CB] \<or> str_includes text [0x4EBA, 0x9593, 0x95A2, 0x4FC2]
                     then detected @ [relationships icfTags] else detected);
         detected = (if str_includes text [0x5BB6] \<or> str_includes text [0x89AA]
                     then detected @ [family icfTags] else detected);
         detected = (if str_includes text [0x4ED5, 0x4E8B] \<or> str_includes text [0x8077, 0x5834]
                     then detected @ [work icfTags] else detected)
     in detected)"

subsection \<open>detectDanger, dangerResponse, breathingGuide\<close>

text \<open>\<^verbatim>\<open>dangerWords.some(w => text.includes(w))\<close>\<close>

definition detectDanger :: "js_string \<Rightarrow> bool" where
  "detectDanger text = list_ex (\<lambda>w. str_includes text w) dangerWords"

text \<open>
  The safety message is the concatenation of six literals. Its two closing lines invite
  one deep breath, counting four on the breath in and six on the breath out.
\<close>

definition dangerResponse :: js_string where
  "dangerResponse =
    [0x4ECA, 0x3001, 0x3068, 0x3066, 0x3082, 0x3064, 0x3089, 0x3044, 0x6C17, 0x6301,
     0x3061, 0x306A, 0x306E, 0x3067, 0x3059, 0x306D, 0x3002, 0x3042, 0x306A, 0x305F,
     0x306E, 0x6C17, 0x6301, 0x3061, 0x306F, 0x5927, 0x5207, 0x3067, 0x3001] @
    [0x3072, 0x3068, 0x308A, 0x3067, 0x62B1, 0x3048, 0x306A, 0x304F, 0x3066, 0x5927,
     0x4E08, 0x592B, 0x3067, 0x3059, 0x3002, 0x000A, 0x000A] @
    [0x5B89, 0x5FC3, 0x3067, 0x304D, 0x308B, 0x5927, 0x4EBA, 0x3084, 0x3001, 0x4FE1,
     0x983C, 0x3067, 0x304D, 0x308B, 0x5148, 0x751F, 0x30FB, 0x5BB6, 0x65CF, 0x3068,
     0x4E00, 0x7DD2, 0x306B, 0x8A71, 0x3057, 0x3066, 0x3082, 0x3089, 0x3048, 0x308B,
     0x3068, 0x5B89, 0x5168, 0x3067, 0x3059, 0x3002] @
    [0x79C1, 0x306F, 0x3053, 0x3053, 0x306B, 0x3044, 0x307E, 0x3059, 0x304C, 0x3001,
     0x547D, 0x306B, 0x95A2, 0x308F, 0x308B, 0x5185, 0x5BB9, 0x3067, 0x306F, 0x5C02,
     0x9580, 0x5BB6, 0x306E, 0x529B, 0x3082, 0x5FC5, 0x8981, 0x3067, 0x3059, 0x3002,
     0x000A, 0x000A] @
    [0x307E, 0x305A, 0x306F, 0x6DF1, 0x547C, 0x5438, 0x3092, 0x4E00, 0x3064, 0x3057,
     0x3066, 0x307F, 0x307E, 0x305B, 0x3093, 0x304B, 0xFF1F, 0x000A] @
    [0x5438, 0x3046, 0x606F, 0x3092, 0xFF14, 0x3064, 0x6570, 0x3048, 0x306A, 0x304C,
     0x3089, 0x3001, 0x5410, 0x304F, 0x606F, 0x3092, 0xFF16, 0x3064, 0x6570, 0x3048,
     0x306A, 0x304C, 0x3089, 0x3001, 0x3086, 0x3063, 0x304F, 0x308A, 0x3067, 0x5927,
     0x4E08, 0x592B, 0x3067, 0x3059, 0x3002]"

text \<open>
  The breathing guide: two newlines, an invitation, then the three numbered steps
  (breathe in through the nose over 4 seconds; stay for 2 seconds; breathe out through
  the mouth over 6 seconds) and a closing line.
\<close>

definition breathingGuide :: js_string where
  "breathingGuide =
    [0x000A, 0x000A, 0x5C11, 0x3057, 0x3060, 0x3051, 0x547C, 0x5438, 0x3092, 0x6574,
     0x3048, 0x308B, 0x6642, 0x9593, 0x3092, 0x4E00, 0x7DD2, 0x306B, 0x3068, 0x308A,
     0x307E, 0x3057, 0x3087, 0x3046, 0x3002] @
    [0x7121, 0x7406, 0x306E, 0x306A, 0x3044, 0x7BC4, 0x56F2, 0x3067, 0x5927, 0x4E08,
     0x592B, 0x3067, 0x3059, 0x3002, 0x000A] @
    [0x2460, 0x0020, 0x9F3B, 0x304B, 0x3089, 0x0034, 0x79D2, 0x304B, 0x3051, 0x3066,
     0x5438, 0x3046, 0x000A] @
    [0x2461, 0x0020, 0x0032, 0x79D2, 0x305D, 0x306E, 0x307E, 0x307E, 0x000A] @
    [0x2462, 0x0020, 0x53E3, 0x304B, 0x3089, 0x0036, 0x79D2, 0x304B, 0x3051, 0x3066,
     0x3086, 0x3063, 0x304F, 0x308A, 0x5410, 0x304F, 0x000A] @
    [0x3042, 0x306A, 0x305F, 0x306E, 0x30DA, 0x30FC, 0x30B9, 0x3067, 0x004F, 0x004B,
     0x3067, 0x3059, 0x304B, 0x3089, 0x306D, 0x3002]"

subsection \<open>The two gateways\<close>

text \<open>
  \<^verbatim>\<open>generateAIResponse\<close> and \<^verbatim>\<open>synthesizeVoice\<close> each build one request and await one
  call of the OpenAI client. The client is the environment of a request: a call either
  throws or returns, and what it returns is not decided by the server. The system prompt
  of the completion request is a fixed template with two holes, the ICF list and the
  score; the request record keeps the two values that fill them.
\<close>

datatype failure = Thrown

record chat_request =
  chat_model :: string
  prompt_icf :: "icf_tag list"
  prompt_score :: int
  user_content :: js_string
  max_tokens :: nat

record speech_request =
  speech_model :: string
  voice :: string
  input :: js_string

record openai_client =
  chat_completions_create :: "chat_request \<Rightarrow> failure + js_string"
  audio_speech_create :: "speech_request \<Rightarrow> failure + js_string"

datatype external_call = ChatCompletion chat_request | AudioSpeech speech_request

text \<open>
  Each gateway returns the outcome of its call together with the call it made, so that
  the handler's result lists the external calls of the request in order.
\<close>

definition chatRequest :: "js_string \<Rightarrow> icf_tag list \<Rightarrow> int \<Rightarrow> chat_request" where
  "chatRequest userText icfList emotionScore' =
     \<lparr>chat_model = ''gpt-4o-mini'', prompt_icf = icfList, prompt_score = emotionScore',
      user_content = userText, max_tokens = 200\<rparr>"

definition generateAIResponse ::
  "openai_client \<Rightarrow> js_string \<Rightarrow> icf_tag list \<Rightarrow> int \<Rightarrow> (failure + js_string) \<times> external_call list" where
  "generateAIResponse client userText icfList emotionScore' =
    (let request = chatRequest userText icfList emotionScore'
     in (chat_completions_create client request, [ChatCompletion request]))"

definition speechRequest :: "js_string \<Rightarrow> speech_request" where
  "speechRequest text = \<lparr>speech_model = ''gpt-4o-mini-tts'', voice = ''alloy'', input = text\<rparr>"

definition synthesizeVoice ::
  "openai_client \<Rightarrow> js_string \<Rightarrow> (failure + js_string) \<times> external_call list" where
  "synthesizeVoice client text =
    (let request = speechRequest text
     in (audio_speech_create client request, [AudioSpeech request]))"

subsection \<open>POST /api/chat\<close>

text \<open>
  \<^verbatim>\<open>req.body\<close> is what the JSON body parser left on the request: the parsed JSON
  object, or \<^verbatim>\<open>undefined\<close> when it parsed nothing (the parser is a dependency and is not
  part of the sources, so both are possible inputs of the handler). The \<^verbatim>\<open>message\<close>
  field of a parsed body is a string or is absent (the request type of the interface is
  \<^verbatim>\<open>{message: string}\<close>; other JSON values of the field are not modelled). The reply is
  the 200 JSON payload or, from the \<^verbatim>\<open>catch\<close> block, the 500 payload
  \<^verbatim>\<open>{error: "server_error"}\<close>. The payload's fields \<^verbatim>\<open>text, audio, danger, score, icf\<close>
  carry the prefix \<open>res_\<close> here. The result of the handler is the reply, the module state
  it leaves and the external calls it made.
\<close>

record request_body =
  message :: "js_string option"

record chat_payload =
  res_text :: js_string
  res_audio :: js_string
  res_danger :: bool
  res_score :: int
  res_icf :: "icf_tag list"

datatype http_response = Ok200 chat_payload | ServerError500

record handled =
  response :: http_response
  state_after :: server_state
  calls :: "external_call list"

text \<open>\<^verbatim>\<open>req.body.message || ""\<close>: an absent field and the empty string are falsy.\<close>

definition message_or_empty :: "request_body \<Rightarrow> js_string" where
  "message_or_empty body = (case message body of None \<Rightarrow> [] | Some m \<Rightarrow> (if m = [] then [] else m))"

text \<open>
  The first statement of the \<^verbatim>\<open>try\<close> block reads \<^verbatim>\<open>req.body.message\<close>. On an undefined
  \<^verbatim>\<open>req.body\<close> the read throws a TypeError: the \<^verbatim>\<open>catch\<close> block answers 500, and neither
  the score update nor any gateway call has happened.
\<close>

definition post_api_chat ::
  "icf_dictionary \<Rightarrow> openai_client \<Rightarrow> int \<Rightarrow> request_body option \<Rightarrow> server_state \<Rightarrow> handled" where
  "post_api_chat icfTags client now req_body s =
    (case req_body of
       None \<Rightarrow> \<lparr>response = ServerError500, state_after = s, calls = []\<rparr>
     | Some body \<Rightarrow>
    (let userText = message_or_empty body;
         (score', s1) = updateEmotionScore userText now s;
         icfList = detectICF icfTags userText
     in if detectDanger userText then
          (let safeText = dangerResponse;
               (voiced, log1) = synthesizeVoice client safeText
           in case voiced of
                Inl err \<Rightarrow> \<lparr>response = ServerError500, state_after = s1, calls = log1\<rparr>
              | Inr voice' \<Rightarrow>
                  \<lparr>response = Ok200 \<lparr>res_text = safeText, res_audio = voice', res_danger = True,
                                      res_score = score', res_icf = icfList\<rparr>,
                   state_after = s1, calls = log1\<rparr>)
        else
          (let (answered, log1) = generateAIResponse client userText icfList score'
           in case answered of
                Inl err \<Rightarrow> \<lparr>response = ServerError500, state_after = s1, calls = log1\<rparr>
              | Inr aiText0 \<Rightarrow>
                  (let aiText = (if score' < 50 then aiText0 @ breathingGuide else aiText0);
                       (voiced, log2) = synthesizeVoice client aiText
                   in case voiced of
                        Inl err \<Rightarrow>
                          \<lparr>response = ServerError500, state_after = s1, calls = log1 @ log2\<rparr>
                      | Inr voice' \<Rightarrow>
                          \<lparr>response = Ok200 \<lparr>res_text = aiText, res_audio = voice',
                                              res_danger = False, res_score = score',
                                              res_icf = icfList\<rparr>,
                           state_after = s1, calls = log1 @ log2\<rparr>))))"

subsection \<open>Runs of updates\<close>

text \<open>
  A sequence of \<^verbatim>\<open>updateEmotionScore\<close> calls, each with its text and its clock reading:
  the list of what every call returned, paired with the state it left.
\<close>

fun run_updates :: "(js_string \<times> int) list \<Rightarrow> server_state \<Rightarrow> (int \<times> server_state) list" where
  "run_updates [] s = []"
| "run_updates ((text, now) # rest) s =
     (let r = updateEmotionScore text now s in r # run_updates rest (snd r))"

subsection \<open>The Domain Tagger as the specification words it\<close>

text \<open>
  Eight categories in declaration order, each with its one or two substrings and its
  tag; a category's tag is kept when any of its substrings occurs in the text.
\<close>

definition categories :: "icf_dictionary \<Rightarrow> (js_string list \<times> icf_tag) list" where
  "categories icfTags =
    [([[0x7720], [0x5BDD]], sleep icfTags),
     ([[0x4E0D, 0x5B89], [0x6016]], emotion icfTags),
     ([[0x75B2], [0x5FD9]], stress icfTags),
     ([[0x52C9, 0x5F37], [0x30C6, 0x30B9, 0x30C8]], learning icfTags),
     ([[0x5B66, 0x6821]], school icfTags),
     ([[0x53CB], [0x4EBA, 0x9593, 0x95A2, 0x4FC2]], relationships icfTags),
     ([[0x5BB6], [0x89AA]], family icfTags),
     ([[0x4ED5, 0x4E8B], [0x8077, 0x5834]], work icfTags)]"

definition detect_spec :: "icf_dictionary \<Rightarrow> js_string \<Rightarrow> icf_tag list" where
  "detect_spec icfTags text =
     map snd (filter (\<lambda>(subs, tag). list_ex (\<lambda>w. sublist w text) subs) (categories icfTags))"

subsection \<open>Sample inputs\<close>

text \<open>A dictionary with ICF-style codes and English labels.\<close>

definition sample_icfTags :: icf_dictionary where
  "sample_icfTags =
    \<lparr>sleep = \<lparr>code = [0x0062, 0x0031, 0x0033, 0x0034],
               label = [0x0073, 0x006C, 0x0065, 0x0065, 0x0070]\<rparr>,
     emotion = \<lparr>code = [0x0062, 0x0031, 0x0035, 0x0032],
                 label = [0x0065, 0x006D, 0x006F, 0x0074, 0x0069, 0x006F, 0x006E]\<rparr>,
     stress = \<lparr>code = [0x0064, 0x0032, 0x0034, 0x0030],
                label = [0x0073, 0x0074, 0x0072, 0x0065, 0x0073, 0x0073]\<rparr>,
     learning = \<lparr>code = [0x0064, 0x0031, 0x0035, 0x0035],
                  label = [0x006C, 0x0065, 0x0061, 0x0072, 0x006E, 0x0069, 0x006E, 0x0067]\<rparr>,
     school = \<lparr>code = [0x0064, 0x0038, 0x0032, 0x0030],
                label = [0x0073, 0x0063, 0x0068, 0x006F, 0x006F, 0x006C]\<rparr>,
     relationships = \<lparr>code = [0x0064, 0x0037, 0x0035, 0x0030],
                       label = [0x0072, 0x0065, 0x006C, 0x0061, 0x0074, 0x0069, 0x006F, 0x006E,
                                0x0073, 0x0068, 0x0069, 0x0070, 0x0073]\<rparr>,
     family = \<lparr>code = [0x0064, 0x0037, 0x0036, 0x0030],
                label = [0x0066, 0x0061, 0x006D, 0x0069, 0x006C, 0x0079]\<rparr>,
     work = \<lparr>code = [0x0064, 0x0038, 0x0035, 0x0030],
              label = [0x0077, 0x006F, 0x0072, 0x006B]\<rparr>\<rparr>"

text \<open>
  Messages: a greeting without any listed word; the specification's crisis scenario; a
  message with five negative words; one with all nine; one about sleep, school and a test.
\<close>

definition msg_greeting :: js_string where
  "msg_greeting = [0x3053, 0x3093, 0x306B, 0x3061, 0x306F]"

definition msg_crisis :: js_string where
  "msg_crisis = [0x3082, 0x3046, 0x7121, 0x7406, 0x3001, 0x6D88, 0x3048, 0x305F, 0x3044]"

definition msg_five_negative :: js_string where
  "msg_five_negative =
    [0x75B2, 0x308C, 0x0020, 0x3064, 0x3089, 0x3044, 0x0020, 0x4E0D, 0x5B89, 0x0020,
     0x60B2, 0x3057, 0x3044, 0x0020, 0x3053, 0x308F, 0x3044]"

definition msg_nine_negative :: js_string where
  "msg_nine_negative =
    [0x75B2, 0x308C, 0x0020, 0x3064, 0x3089, 0x3044, 0x0020, 0x4E0D, 0x5B89, 0x0020,
     0x60B2, 0x3057, 0x3044, 0x0020, 0x3053, 0x308F, 0x3044, 0x0020, 0x3082, 0x3046,
     0x3060, 0x3081, 0x0020, 0x6D88, 0x3048, 0x305F, 0x3044, 0x0020, 0x6B7B, 0x306B,
     0x305F, 0x3044, 0x0020, 0x3044, 0x3084, 0x3060]"

definition msg_school :: js_string where
  "msg_school =
    [0x7720, 0x308C, 0x306A, 0x3044, 0x3057, 0x3001, 0x5B66, 0x6821, 0x306E, 0x30C6,
     0x30B9, 0x30C8, 0x304C, 0x4E0D, 0x5B89]"

text \<open>
  The last two literals of the safety message: an invitation to one deep breath, counting
  four while breathing in and six while breathing out.
\<close>

definition breath_invitation :: js_string where
  "breath_invitation =
    [0x307E, 0x305A, 0x306F, 0x6DF1, 0x547C, 0x5438, 0x3092, 0x4E00, 0x3064, 0x3057,
     0x3066, 0x307F, 0x307E, 0x305B, 0x3093, 0x304B, 0xFF1F, 0x000A] @
    [0x5438, 0x3046, 0x606F, 0x3092, 0xFF14, 0x3064, 0x6570, 0x3048, 0x306A, 0x304C,
     0x3089, 0x3001, 0x5410, 0x304F, 0x606F, 0x3092, 0xFF16, 0x3064, 0x6570, 0x3048,
     0x306A, 0x304C, 0x3089, 0x3001, 0x3086, 0x3063, 0x304F, 0x308A, 0x3067, 0x5927,
     0x4E08, 0x592B, 0x3067, 0x3059, 0x3002]"

text \<open>The second step of the breathing guide, without its newline.\<close>

definition hold_step :: js_string where
  "hold_step = [0x2461, 0x0020, 0x0032, 0x79D2, 0x305D, 0x306E, 0x307E, 0x307E]"

text \<open>
  Clients: one whose calls both return (a fixed reply, a fixed audio string), one whose
  completion call throws, one whose speech call throws.
\<close>

definition sample_reply :: js_string where
  "sample_reply = [0x305D, 0x3046, 0x306A, 0x3093, 0x3067, 0x3059, 0x306D, 0x3002]"

definition sample_audio :: js_string where
  "sample_audio = [0x0051, 0x0055, 0x004A, 0x0044]"

definition working_client :: openai_client where
  "working_client =
    \<lparr>chat_completions_create = (\<lambda>r. Inr sample_reply),
     audio_speech_create = (\<lambda>r. Inr sample_audio)\<rparr>"

definition completion_down_client :: openai_client where
  "completion_down_client =
    \<lparr>chat_completions_create = (\<lambda>r. Inl Thrown),
     audio_speech_create = (\<lambda>r. Inr sample_audio)\<rparr>"

definition speech_down_client :: openai_client where
  "speech_down_client =
    \<lparr>chat_completions_create = (\<lambda>r. Inr sample_reply),
     audio_speech_create = (\<lambda>r. Inl Thrown)\<rparr>"

section \<open>Properties\<close>

subsection \<open>Substring search\<close>

text \<open>\<open>str_includes\<close> decides the substring relation \<open>\<exists>ps ss. text = ps @ w @ ss\<close>.\<close>

lemma str_includes_sublist: "str_includes text w = sublist w text"
  by (induction "text") (simp_all add: sublist_Cons_right)

lemma str_includes_append: "str_includes (ps @ w @ ss) w"
  by (simp add: str_includes_sublist)

lemma foldl_no_hit:
  "\<forall>w\<in>set ws. \<not> P w \<Longrightarrow> foldl (\<lambda>sc w. if P w then f sc else sc) sc ws = sc"
  by (induction ws arbitrary: sc) simp_all

subsection \<open>The Sentiment Scorer\<close>

lemma updateEmotionScore_clamped:
  "0 \<le> fst (updateEmotionScore text now s) \<and> fst (updateEmotionScore text now s) \<le> 100"
  by (simp add: updateEmotionScore_def Let_def)

lemma updateEmotionScore_state:
  "snd (updateEmotionScore text now s) =
     \<lparr>emotionScore = fst (updateEmotionScore text now s),
      emotionHistory = emotionHistory s @
        [\<lparr>time = now, score = fst (updateEmotionScore text now s)\<rparr>]\<rparr>"
  by (simp add: updateEmotionScore_def Let_def)

lemma updateEmotionScore_no_keyword:
  assumes "\<forall>w\<in>set negativeWords. \<not> sublist w text"
    and "\<forall>w\<in>set positiveWords. \<not> sublist w text"
  shows "fst (updateEmotionScore text now s) = max 0 (min 100 (emotionScore s))"
  using assms by (simp add: updateEmotionScore_def Let_def foldl_no_hit str_includes_sublist)


text \<open>
  C3. After each call of a sequence of \<open>updateEmotionScore\<close> calls, whatever the score
  the sequence starts from (so from any score in 0..100 too), the score the call returns
  is between 0 and 100 and is the score the state holds afterwards. The score is an
  \<open>int\<close>: it is an integer by its type.
\<close>

theorem score_clamped_after_each_update:
  "(r, s') \<in> set (run_updates updates s) \<Longrightarrow> 0 \<le> r \<and> r \<le> 100 \<and> emotionScore s' = r"
proof (induction updates arbitrary: s)
  case Nil
  then show ?case by simp
next
  case (Cons c rest)
  obtain t now where c: "c = (t, now)" by (cases c)
  from Cons.prems c
  consider (first) "(r, s') = updateEmotionScore t now s"
    | (later) "(r, s') \<in> set (run_updates rest (snd (updateEmotionScore t now s)))"
    by (auto simp: Let_def)
  then show ?case
  proof cases
    case first
    then have r: "r = fst (updateEmotionScore t now s)"
      and s': "s' = snd (updateEmotionScore t now s)"
      by (metis fst_conv, metis snd_conv)
    from r updateEmotionScore_clamped [of t now s] have "0 \<le> r \<and> r \<le> 100" by simp
    moreover from r s' have "emotionScore s' = r"
      by (simp add: updateEmotionScore_state)
    ultimately show ?thesis by simp
  next
    case later
    then show ?thesis by (rule Cons.IH)
  qed
qed

theorem score_clamped_after_each_update_witness:
  "(0, \<lparr>emotionScore = 0, emotionHistory = [\<lparr>time = 1, score = 45\<rparr>, \<lparr>time = 2, score = 0\<rparr>]\<rparr>)
     \<in> set (run_updates [(msg_five_negative, 1), (msg_nine_negative, 2)] initial_state)
   \<and> emotionScore \<lparr>emotionScore = 0,
        emotionHistory = [\<lparr>time = 1, score = 45\<rparr>, \<lparr>time = 2, score = 0\<rparr>]\<rparr> = 0"
proof -
  have mem: "(0, \<lparr>emotionScore = 0, emotionHistory = [\<lparr>time = 1, score = 45\<rparr>, \<lparr>time = 2, score = 0\<rparr>]\<rparr>)
     \<in> set (run_updates [(msg_five_negative, 1), (msg_nine_negative, 2)] initial_state)"
    by (simp add: updateEmotionScore_def initial_state_def msg_five_negative_def
        msg_nine_negative_def negativeWords_def positiveWords_def Let_def)
  from score_clamped_after_each_update [OF mem] mem show ?thesis by simp
qed

text \<open>
  C7. When the text contains no negative and no positive keyword as a substring,
  \<open>updateEmotionScore\<close> returns the score the state held before the call and the state
  keeps it. The score before the call is one the data model allows, 0..100.
\<close>

theorem no_keyword_score_unchanged:
  assumes "0 \<le> emotionScore s" and "emotionScore s \<le> 100"
    and "\<forall>w\<in>set negativeWords. \<not> sublist w text"
    and "\<forall>w\<in>set positiveWords. \<not> sublist w text"
  shows "fst (updateEmotionScore text now s) = emotionScore s
       \<and> emotionScore (snd (updateEmotionScore text now s)) = emotionScore s"
  using assms updateEmotionScore_no_keyword [of "text" now s]
  by (simp add: updateEmotionScore_state)

theorem no_keyword_score_unchanged_witness:
  "fst (updateEmotionScore msg_greeting 7 \<lparr>emotionScore = 45, emotionHistory = []\<rparr>) = 45
   \<and> \<not> (\<exists>w\<in>set negativeWords. sublist w msg_greeting)
   \<and> \<not> (\<exists>w\<in>set positiveWords. sublist w msg_greeting)"
proof -
  have n: "\<forall>w\<in>set negativeWords. \<not> sublist w msg_greeting"
    by (simp add: negativeWords_def msg_greeting_def str_includes_sublist [symmetric])
  have p: "\<forall>w\<in>set positiveWords. \<not> sublist w msg_greeting"
    by (simp add: positiveWords_def msg_greeting_def str_includes_sublist [symmetric])
  from no_keyword_score_unchanged [of "\<lparr>emotionScore = 45, emotionHistory = []\<rparr>" msg_greeting 7, OF _ _ n p]
  show ?thesis using n p by simp
qed

text \<open>
  C10. At process start the score is 70 and the history is empty; the first update after
  start-up, on a text without any negative or positive keyword, returns 70.
\<close>

theorem first_update_returns_70:
  "emotionScore initial_state = 70 \<and> emotionHistory initial_state = [] \<and>
   ((\<forall>w\<in>set negativeWords. \<not> sublist w text) \<and> (\<forall>w\<in>set positiveWords. \<not> sublist w text)
      \<longrightarrow> fst (updateEmotionScore text now initial_state) = 70)"
  using updateEmotionScore_no_keyword [of "text" now initial_state]
  by (simp add: initial_state_def)

theorem first_update_returns_70_witness:
  "\<not> (\<exists>w\<in>set negativeWords. sublist w msg_greeting)
   \<and> \<not> (\<exists>w\<in>set positiveWords. sublist w msg_greeting)
   \<and> fst (updateEmotionScore msg_greeting 1 initial_state) = 70"
proof -
  have n: "\<forall>w\<in>set negativeWords. \<not> sublist w msg_greeting"
    by (simp add: negativeWords_def msg_greeting_def str_includes_sublist [symmetric])
  have p: "\<forall>w\<in>set positiveWords. \<not> sublist w msg_greeting"
    by (simp add: positiveWords_def msg_greeting_def str_includes_sublist [symmetric])
  from first_update_returns_70 [of msg_greeting 1] n p show ?thesis by blast
qed

subsection \<open>The Danger Detector\<close>

lemma detectDanger_sublist: "detectDanger text = (\<exists>w\<in>set dangerWords. sublist w text)"
  by (simp add: detectDanger_def list_ex_iff str_includes_sublist)

text \<open>
  C4. \<open>detectDanger\<close> is true exactly when some word of \<open>dangerWords\<close> is a substring of
  the text. So it is true of every danger word taken as the whole text, and false of
  every text that contains none of them.
\<close>

theorem detectDanger_iff_keyword:
  "(detectDanger text \<longleftrightarrow> (\<exists>w\<in>set dangerWords. \<exists>ps ss. text = ps @ w @ ss))
   \<and> (\<forall>w\<in>set dangerWords. detectDanger w)
   \<and> ((\<forall>w\<in>set dangerWords. \<not> sublist w text) \<longrightarrow> \<not> detectDanger text)"
proof -
  have "\<forall>w\<in>set dangerWords. detectDanger w"
    unfolding detectDanger_sublist by blast
  then show ?thesis
    by (simp add: detectDanger_sublist sublist_def)
qed

theorem detectDanger_iff_keyword_witness:
  "detectDanger msg_crisis \<and> msg_crisis = [0x3082, 0x3046, 0x7121, 0x7406, 0x3001] @ (dangerWords ! 1) @ []
   \<and> \<not> detectDanger msg_greeting \<and> \<not> (\<exists>w\<in>set dangerWords. sublist w msg_greeting)
   \<and> detectDanger (dangerWords ! 2)"
proof -
  have a: "msg_crisis = [0x3082, 0x3046, 0x7121, 0x7406, 0x3001] @ (dangerWords ! 1) @ []"
    by (simp add: msg_crisis_def dangerWords_def)
  have m: "dangerWords ! 1 \<in> set dangerWords" "dangerWords ! 2 \<in> set dangerWords"
    by (simp_all add: dangerWords_def)
  have n: "\<forall>w\<in>set dangerWords. \<not> sublist w msg_greeting"
    by (simp add: dangerWords_def msg_greeting_def str_includes_sublist [symmetric])
  from detectDanger_iff_keyword [of msg_crisis] a m(1) have "detectDanger msg_crisis" by blast
  moreover from detectDanger_iff_keyword [of msg_greeting] n have "\<not> detectDanger msg_greeting" by blast
  moreover from detectDanger_iff_keyword [of msg_greeting] m(2) have "detectDanger (dangerWords ! 2)" by blast
  ultimately show ?thesis using a n by blast
qed

subsection \<open>The Domain Tagger\<close>

lemma push_if: "(if c then xs @ [a] else xs) = xs @ (if c then [a] else [])"
  by simp

lemma keep_if: "map snd (filter P (x # xs)) = (if P x then [snd x] else []) @ map snd (filter P xs)"
  by simp

lemma detectICF_detect_spec: "detectICF icfTags text = detect_spec icfTags text"
  unfolding detectICF_def detect_spec_def categories_def Let_def push_if keep_if
  by (simp add: str_includes_sublist)

lemma detect_spec_subseq: "subseq (detect_spec icfTags text) (map snd (categories icfTags))"
  unfolding detect_spec_def by (intro subseq_map subseq_filter_left)

text \<open>
  C6. \<open>detectICF\<close> is a function of the dictionary and the text alone. It computes what
  the specification words: of the eight categories, taken in the order sleep, emotion,
  stress, learning, school, relationships, family, work, the tags of those with a
  substring in the text. Every category has one or two substrings; the result is a
  subsequence of the eight tags in that order, so it has at most eight entries, all
  among the eight tags.
\<close>

theorem detectICF_fixed_categories_in_order:
  "detectICF icfTags text = detect_spec icfTags text
   \<and> map snd (categories icfTags) =
       [sleep icfTags, emotion icfTags, stress icfTags, learning icfTags, school icfTags,
        relationships icfTags, family icfTags, work icfTags]
   \<and> list_all (\<lambda>(subs, tag). length subs = 1 \<or> length subs = 2) (categories icfTags)
   \<and> subseq (detectICF icfTags text) (map snd (categories icfTags))
   \<and> length (detectICF icfTags text) \<le> 8
   \<and> set (detectICF icfTags text) \<subseteq>
       {sleep icfTags, emotion icfTags, stress icfTags, learning icfTags, school icfTags,
        relationships icfTags, family icfTags, work icfTags}"
proof -
  have order: "map snd (categories icfTags) =
       [sleep icfTags, emotion icfTags, stress icfTags, learning icfTags, school icfTags,
        relationships icfTags, family icfTags, work icfTags]"
    by (simp add: categories_def)
  have sizes: "list_all (\<lambda>(subs, tag). length subs = 1 \<or> length subs = 2) (categories icfTags)"
    by (simp add: categories_def)
  have sub: "subseq (detectICF icfTags text) (map snd (categories icfTags))"
    by (simp only: detectICF_detect_spec detect_spec_subseq)
  from sub have "length (detectICF icfTags text) \<le> length (map snd (categories icfTags))"
    by (rule list_emb_length)
  then have len: "length (detectICF icfTags text) \<le> 8"
    by (simp add: categories_def)
  from sub have "set (detectICF icfTags text) \<subseteq> set (map snd (categories icfTags))"
    by (auto elim: list_emb_set)
  then have mem: "set (detectICF icfTags text) \<subseteq>
       {sleep icfTags, emotion icfTags, stress icfTags, learning icfTags, school icfTags,
        relationships icfTags, family icfTags, work icfTags}"
    by (simp only: order) simp
  from detectICF_detect_spec order sizes sub len mem show ?thesis by blast
qed

theorem detectICF_fixed_categories_in_order_witness:
  "detectICF sample_icfTags msg_school =
     [sleep sample_icfTags, emotion sample_icfTags, learning sample_icfTags, school sample_icfTags]
   \<and> detect_spec sample_icfTags msg_school =
     [sleep sample_icfTags, emotion sample_icfTags, learning sample_icfTags, school sample_icfTags]
   \<and> detectICF sample_icfTags msg_greeting = []"
proof -
  have a: "detectICF sample_icfTags msg_school =
     [sleep sample_icfTags, emotion sample_icfTags, learning sample_icfTags, school sample_icfTags]"
    by (simp add: detectICF_def msg_school_def Let_def)
  have b: "detectICF sample_icfTags msg_greeting = []"
    by (simp add: detectICF_def msg_greeting_def Let_def)
  from detectICF_fixed_categories_in_order [of sample_icfTags msg_school] a b
  show ?thesis by simp
qed

subsection \<open>The Request Orchestrator\<close>

text \<open>The handler, branch by branch.\<close>

lemma post_api_chat_danger:
  assumes "detectDanger (message_or_empty body)"
  shows "post_api_chat icfTags client now (Some body) s =
    (case audio_speech_create client (speechRequest dangerResponse) of
       Inl err \<Rightarrow>
         \<lparr>response = ServerError500,
          state_after = snd (updateEmotionScore (message_or_empty body) now s),
          calls = [AudioSpeech (speechRequest dangerResponse)]\<rparr>
     | Inr voice' \<Rightarrow>
         \<lparr>response = Ok200
            \<lparr>res_text = dangerResponse, res_audio = voice', res_danger = True,
             res_score = fst (updateEmotionScore (message_or_empty body) now s),
             res_icf = detectICF icfTags (message_or_empty body)\<rparr>,
          state_after = snd (updateEmotionScore (message_or_empty body) now s),
          calls = [AudioSpeech (speechRequest dangerResponse)]\<rparr>)"
  using assms
  by (simp add: post_api_chat_def synthesizeVoice_def Let_def split_beta split: sum.splits)

lemma post_api_chat_completion_throws:
  assumes "\<not> detectDanger (message_or_empty body)"
    and "chat_completions_create client
           (chatRequest (message_or_empty body) (detectICF icfTags (message_or_empty body))
              (fst (updateEmotionScore (message_or_empty body) now s))) = Inl err"
  shows "post_api_chat icfTags client now (Some body) s =
     \<lparr>response = ServerError500,
      state_after = snd (updateEmotionScore (message_or_empty body) now s),
      calls = [ChatCompletion
         (chatRequest (message_or_empty body) (detectICF icfTags (message_or_empty body))
            (fst (updateEmotionScore (message_or_empty body) now s)))]\<rparr>"
  using assms
  by (simp add: post_api_chat_def generateAIResponse_def Let_def split_beta)

lemma post_api_chat_completion_returns:
  assumes "\<not> detectDanger (message_or_empty body)"
    and "chat_completions_create client
           (chatRequest (message_or_empty body) (detectICF icfTags (message_or_empty body))
              (fst (updateEmotionScore (message_or_empty body) now s))) = Inr out"
    and "aiText = (if fst (updateEmotionScore (message_or_empty body) now s) < 50
                   then out @ breathingGuide else out)"
  shows "post_api_chat icfTags client now (Some body) s =
    (case audio_speech_create client (speechRequest aiText) of
       Inl err \<Rightarrow>
         \<lparr>response = ServerError500,
          state_after = snd (updateEmotionScore (message_or_empty body) now s),
          calls = [ChatCompletion
             (chatRequest (message_or_empty body) (detectICF icfTags (message_or_empty body))
                (fst (updateEmotionScore (message_or_empty body) now s))),
             AudioSpeech (speechRequest aiText)]\<rparr>
     | Inr voice' \<Rightarrow>
         \<lparr>response = Ok200
            \<lparr>res_text = aiText, res_audio = voice', res_danger = False,
             res_score = fst (updateEmotionScore (message_or_empty body) now s),
             res_icf = detectICF icfTags (message_or_empty body)\<rparr>,
          state_after = snd (updateEmotionScore (message_or_empty body) now s),
          calls = [ChatCompletion
             (chatRequest (message_or_empty body) (detectICF icfTags (message_or_empty body))
                (fst (updateEmotionScore (message_or_empty body) now s))),
             AudioSpeech (speechRequest aiText)]\<rparr>)"
  using assms
  by (simp add: post_api_chat_def generateAIResponse_def synthesizeVoice_def Let_def
      split_beta split: sum.splits)

lemma state_after_post_api_chat:
  "state_after (post_api_chat icfTags client now (Some body) s) =
     snd (updateEmotionScore (message_or_empty body) now s)"
proof (cases "detectDanger (message_or_empty body)")
  case True
  then show ?thesis
    by (simp add: post_api_chat_danger split: sum.splits)
next
  case False
  show ?thesis
  proof (cases "chat_completions_create client
           (chatRequest (message_or_empty body) (detectICF icfTags (message_or_empty body))
              (fst (updateEmotionScore (message_or_empty body) now s)))")
    case (Inl err)
    with False show ?thesis by (simp add: post_api_chat_completion_throws)
  next
    case (Inr out)
    with False show ?thesis
      by (simp add: post_api_chat_completion_returns [OF False Inr refl] split: sum.splits)
  qed
qed

lemma no_danger_word_in_greeting: "\<not> detectDanger msg_greeting"
  by (simp add: detectDanger_def dangerWords_def msg_greeting_def)



lemma guide_not_in_dangerResponse: "\<not> sublist breathingGuide dangerResponse"
  unfolding str_includes_sublist [symmetric]
  by (simp add: breathingGuide_def dangerResponse_def)

lemma hold_step_not_in_dangerResponse: "\<not> sublist hold_step dangerResponse"
  unfolding str_includes_sublist [symmetric]
  by (simp add: hold_step_def dangerResponse_def)

lemma dangerResponse_ends_with_invitation: "suffix breath_invitation dangerResponse"
  unfolding suffix_def
  by (simp add: breath_invitation_def dangerResponse_def)

text \<open>
  C1. When the message text contains a danger word as a substring, the only external
  call of the request is the speech call on the safety message: no completion call is
  made. Every 200 reply carries \<open>dangerResponse\<close> itself as its text, and the reply is
  200 whenever the speech call returns; it is the 500 reply when the speech call throws.
\<close>

theorem danger_bypasses_completion:
  assumes "\<exists>w\<in>set dangerWords. sublist w m"
  shows "calls (post_api_chat icfTags client now (Some \<lparr>message = Some m\<rparr>) s) =
           [AudioSpeech (speechRequest dangerResponse)]
       \<and> (\<forall>request. ChatCompletion request \<notin>
             set (calls (post_api_chat icfTags client now (Some \<lparr>message = Some m\<rparr>) s)))
       \<and> (\<forall>p. response (post_api_chat icfTags client now (Some \<lparr>message = Some m\<rparr>) s) = Ok200 p
              \<longrightarrow> res_text p = dangerResponse \<and> res_danger p)
       \<and> (\<forall>voice'. audio_speech_create client (speechRequest dangerResponse) = Inr voice'
              \<longrightarrow> response (post_api_chat icfTags client now (Some \<lparr>message = Some m\<rparr>) s) =
                  Ok200 \<lparr>res_text = dangerResponse, res_audio = voice', res_danger = True,
                         res_score = fst (updateEmotionScore m now s),
                         res_icf = detectICF icfTags m\<rparr>)
       \<and> (\<forall>err. audio_speech_create client (speechRequest dangerResponse) = Inl err
              \<longrightarrow> response (post_api_chat icfTags client now (Some \<lparr>message = Some m\<rparr>) s) =
                  ServerError500)"
proof -
  have text_m: "message_or_empty \<lparr>message = Some m\<rparr> = m"
    by (simp add: message_or_empty_def)
  from assms have "detectDanger (message_or_empty \<lparr>message = Some m\<rparr>)"
    by (simp add: text_m detectDanger_sublist)
  from post_api_chat_danger [OF this, of icfTags client now s] show ?thesis
    by (cases "audio_speech_create client (speechRequest dangerResponse)")
       (simp_all add: text_m)
qed

theorem danger_bypasses_completion_witness:
  "(\<exists>w\<in>set dangerWords. sublist w msg_crisis)
   \<and> calls (post_api_chat sample_icfTags working_client 5 (Some \<lparr>message = Some msg_crisis\<rparr>) initial_state) =
       [AudioSpeech (speechRequest dangerResponse)]
   \<and> response (post_api_chat sample_icfTags working_client 5 (Some \<lparr>message = Some msg_crisis\<rparr>) initial_state) =
       Ok200 \<lparr>res_text = dangerResponse, res_audio = sample_audio, res_danger = True,
              res_score = 65, res_icf = []\<rparr>"
proof -
  have hit: "\<exists>w\<in>set dangerWords. sublist w msg_crisis"
    by (simp add: dangerWords_def msg_crisis_def str_includes_sublist [symmetric])
  have sc: "fst (updateEmotionScore msg_crisis 5 initial_state) = 65"
    by (simp add: updateEmotionScore_def initial_state_def msg_crisis_def negativeWords_def
        positiveWords_def Let_def)
  have tags: "detectICF sample_icfTags msg_crisis = []"
    by (simp add: detectICF_def msg_crisis_def Let_def)
  have voice: "audio_speech_create working_client (speechRequest dangerResponse) = Inr sample_audio"
    by (simp add: working_client_def)
  from danger_bypasses_completion [OF hit, of sample_icfTags working_client 5 initial_state]
    hit sc tags voice
  show ?thesis by simp
qed

text \<open>
  C2, as the code has it. When danger is detected, the text of every 200 reply is
  \<open>dangerResponse\<close> alone. That message closes with an invitation to one deep breath
  (count four breathing in, six breathing out); the breathing guide, with its three
  timed steps, is not part of it, and neither is the guide's hold step.
\<close>

theorem danger_reply_is_safety_message_only:
  assumes "detectDanger (message_or_empty body)"
  shows "(\<forall>p. response (post_api_chat icfTags client now (Some body) s) = Ok200 p
            \<longrightarrow> res_text p = dangerResponse \<and> res_danger p
                \<and> \<not> sublist breathingGuide (res_text p) \<and> \<not> sublist hold_step (res_text p)
                \<and> suffix breath_invitation (res_text p))
       \<and> (\<forall>voice'. audio_speech_create client (speechRequest dangerResponse) = Inr voice'
            \<longrightarrow> (\<exists>p. response (post_api_chat icfTags client now (Some body) s) = Ok200 p))"
  using post_api_chat_danger [OF assms, of icfTags client now s]
    guide_not_in_dangerResponse hold_step_not_in_dangerResponse
    dangerResponse_ends_with_invitation
  by (cases "audio_speech_create client (speechRequest dangerResponse)") simp_all

theorem danger_reply_is_safety_message_only_witness:
  "detectDanger (message_or_empty \<lparr>message = Some msg_crisis\<rparr>)
   \<and> response (post_api_chat sample_icfTags working_client 5 (Some \<lparr>message = Some msg_crisis\<rparr>) initial_state) =
       Ok200 \<lparr>res_text = dangerResponse, res_audio = sample_audio, res_danger = True,
              res_score = 65, res_icf = []\<rparr>
   \<and> \<not> sublist breathingGuide dangerResponse"
proof -
  have hit: "detectDanger (message_or_empty \<lparr>message = Some msg_crisis\<rparr>)"
    by (simp add: message_or_empty_def detectDanger_def dangerWords_def msg_crisis_def)
  have sc: "fst (updateEmotionScore msg_crisis 5 initial_state) = 65"
    by (simp add: updateEmotionScore_def initial_state_def msg_crisis_def negativeWords_def
        positiveWords_def Let_def)
  have tags: "detectICF sample_icfTags msg_crisis = []"
    by (simp add: detectICF_def msg_crisis_def Let_def)
  have reply: "response (post_api_chat sample_icfTags working_client 5 (Some \<lparr>message = Some msg_crisis\<rparr>) initial_state) =
       Ok200 \<lparr>res_text = dangerResponse, res_audio = sample_audio, res_danger = True,
              res_score = 65, res_icf = []\<rparr>"
    using post_api_chat_danger [OF hit, of sample_icfTags working_client 5 initial_state] sc tags
    by (simp add: working_client_def message_or_empty_def)
  from danger_reply_is_safety_message_only [OF hit, of sample_icfTags working_client 5 initial_state]
    hit reply
  show ?thesis by simp
qed

text \<open>
  The claim as the specification states it fails on its own scenario: for the message
  of the scenario the reply is 200 and its text is \<open>dangerResponse\<close>, which is not
  \<open>dangerResponse\<close> followed by the breathing guide and contains neither the guide nor
  its hold step.
\<close>

theorem danger_reply_with_guide_counterexample:
  "detectDanger msg_crisis
   \<and> response (post_api_chat sample_icfTags working_client 5 (Some \<lparr>message = Some msg_crisis\<rparr>) initial_state) =
       Ok200 \<lparr>res_text = dangerResponse, res_audio = sample_audio, res_danger = True,
              res_score = 65, res_icf = []\<rparr>
   \<and> dangerResponse \<noteq> dangerResponse @ breathingGuide
   \<and> \<not> sublist breathingGuide dangerResponse
   \<and> \<not> sublist hold_step dangerResponse"
proof -
  have hit: "detectDanger msg_crisis"
    by (simp add: detectDanger_def dangerWords_def msg_crisis_def)
  then have hit': "detectDanger (message_or_empty \<lparr>message = Some msg_crisis\<rparr>)"
    by (simp add: message_or_empty_def)
  have sc: "fst (updateEmotionScore msg_crisis 5 initial_state) = 65"
    by (simp add: updateEmotionScore_def initial_state_def msg_crisis_def negativeWords_def
        positiveWords_def Let_def)
  have tags: "detectICF sample_icfTags msg_crisis = []"
    by (simp add: detectICF_def msg_crisis_def Let_def)
  have reply: "response (post_api_chat sample_icfTags working_client 5 (Some \<lparr>message = Some msg_crisis\<rparr>) initial_state) =
       Ok200 \<lparr>res_text = dangerResponse, res_audio = sample_audio, res_danger = True,
              res_score = 65, res_icf = []\<rparr>"
    using post_api_chat_danger [OF hit', of sample_icfTags working_client 5 initial_state] sc tags
    by (simp add: working_client_def message_or_empty_def)
  have differ: "dangerResponse \<noteq> dangerResponse @ breathingGuide"
    by (simp add: breathingGuide_def)
  from hit reply differ guide_not_in_dangerResponse hold_step_not_in_dangerResponse
  show ?thesis by simp
qed

text \<open>
  C5. When no danger is detected and both gateway calls return, the reply is 200 and its
  text is the completion's output followed by the breathing guide if the updated score
  is below 50, and the completion's output alone if the score is 50 or more.
\<close>

theorem breathing_guide_appended_below_50:
  assumes "userText = message_or_empty body"
    and "\<not> detectDanger userText"
    and "score' = fst (updateEmotionScore userText now s)"
    and "chat_completions_create client
           (chatRequest userText (detectICF icfTags userText) score') = Inr out"
    and "audio_speech_create client
           (speechRequest (if score' < 50 then out @ breathingGuide else out)) = Inr voice'"
  shows "(score' < 50 \<longrightarrow>
            response (post_api_chat icfTags client now (Some body) s) =
              Ok200 \<lparr>res_text = out @ breathingGuide, res_audio = voice', res_danger = False,
                     res_score = score', res_icf = detectICF icfTags userText\<rparr>)
       \<and> (50 \<le> score' \<longrightarrow>
            response (post_api_chat icfTags client now (Some body) s) =
              Ok200 \<lparr>res_text = out, res_audio = voice', res_danger = False,
                     res_score = score', res_icf = detectICF icfTags userText\<rparr>)"
proof -
  from assms(1,2) have safe: "\<not> detectDanger (message_or_empty body)" by simp
  from assms(1,3,4) have answered: "chat_completions_create client
           (chatRequest (message_or_empty body) (detectICF icfTags (message_or_empty body))
              (fst (updateEmotionScore (message_or_empty body) now s))) = Inr out"
    by simp
  from assms(1,3) have final: "(if score' < 50 then out @ breathingGuide else out) =
      (if fst (updateEmotionScore (message_or_empty body) now s) < 50
       then out @ breathingGuide else out)"
    by simp
  from assms(5) final have voiced: "audio_speech_create client
      (speechRequest (if fst (updateEmotionScore (message_or_empty body) now s) < 50
                      then out @ breathingGuide else out)) = Inr voice'"
    by simp
  have "response (post_api_chat icfTags client now (Some body) s) =
      Ok200 \<lparr>res_text = (if score' < 50 then out @ breathingGuide else out),
             res_audio = voice', res_danger = False, res_score = score',
             res_icf = detectICF icfTags userText\<rparr>"
    by (simp add: post_api_chat_completion_returns [OF safe answered refl] voiced assms(1,3))
  then show ?thesis by simp
qed

theorem breathing_guide_appended_below_50_witness:
  "\<not> detectDanger msg_five_negative
   \<and> fst (updateEmotionScore msg_five_negative 5 initial_state) = 45
   \<and> response (post_api_chat sample_icfTags working_client 5
        (Some \<lparr>message = Some msg_five_negative\<rparr>) initial_state) =
       Ok200 \<lparr>res_text = sample_reply @ breathingGuide, res_audio = sample_audio,
              res_danger = False, res_score = 45,
              res_icf = [emotion sample_icfTags, stress sample_icfTags]\<rparr>
   \<and> \<not> detectDanger msg_greeting
   \<and> fst (updateEmotionScore msg_greeting 6 initial_state) = 70
   \<and> response (post_api_chat sample_icfTags working_client 6
        (Some \<lparr>message = Some msg_greeting\<rparr>) initial_state) =
       Ok200 \<lparr>res_text = sample_reply, res_audio = sample_audio,
              res_danger = False, res_score = 70, res_icf = []\<rparr>"
proof -
  have t5: "msg_five_negative = message_or_empty \<lparr>message = Some msg_five_negative\<rparr>"
    by (simp add: message_or_empty_def)
  have tg: "msg_greeting = message_or_empty \<lparr>message = Some msg_greeting\<rparr>"
    by (simp add: message_or_empty_def)
  have d5: "\<not> detectDanger msg_five_negative"
    by (simp add: detectDanger_def dangerWords_def msg_five_negative_def)
  have s5: "45 = fst (updateEmotionScore msg_five_negative 5 initial_state)"
    by (simp add: updateEmotionScore_def initial_state_def msg_five_negative_def
        negativeWords_def positiveWords_def Let_def)
  have sg: "70 = fst (updateEmotionScore msg_greeting 6 initial_state)"
    by (simp add: updateEmotionScore_def initial_state_def msg_greeting_def
        negativeWords_def positiveWords_def Let_def)
  have i5: "detectICF sample_icfTags msg_five_negative = [emotion sample_icfTags, stress sample_icfTags]"
    by (simp add: detectICF_def msg_five_negative_def Let_def)
  have ig: "detectICF sample_icfTags msg_greeting = []"
    by (simp add: detectICF_def msg_greeting_def Let_def)
  have c: "chat_completions_create working_client request = Inr sample_reply" for request
    by (simp add: working_client_def)
  have v: "audio_speech_create working_client request = Inr sample_audio" for request
    by (simp add: working_client_def)
  from breathing_guide_appended_below_50 [OF t5 d5 s5 c v, of sample_icfTags]
  have low: "response (post_api_chat sample_icfTags working_client 5
        (Some \<lparr>message = Some msg_five_negative\<rparr>) initial_state) =
       Ok200 \<lparr>res_text = sample_reply @ breathingGuide, res_audio = sample_audio,
              res_danger = False, res_score = 45,
              res_icf = [emotion sample_icfTags, stress sample_icfTags]\<rparr>"
    by (simp add: i5)
  from breathing_guide_appended_below_50 [OF tg no_danger_word_in_greeting sg c v, of sample_icfTags]
  have high: "response (post_api_chat sample_icfTags working_client 6
        (Some \<lparr>message = Some msg_greeting\<rparr>) initial_state) =
       Ok200 \<lparr>res_text = sample_reply, res_audio = sample_audio,
              res_danger = False, res_score = 70, res_icf = []\<rparr>"
    by (simp add: ig)
  from d5 s5 low no_danger_word_in_greeting sg high show ?thesis by simp
qed




text \<open>
  C9. Every call of \<open>updateEmotionScore\<close> leaves the history it found with exactly one
  entry added at the end, holding the clock reading and the score the call returns, and
  stores that score; no entry is removed. The handler never writes the state again: when
  a gateway call throws and the reply is the 500 error (for a request with a parsed
  body the 500 reply has no other cause), the state after the request is still the state
  \<open>updateEmotionScore\<close> left.
\<close>

theorem update_appends_and_survives_failure:
  "emotionHistory (snd (updateEmotionScore text now s)) =
     emotionHistory s @ [\<lparr>time = now, score = fst (updateEmotionScore text now s)\<rparr>]
   \<and> length (emotionHistory (snd (updateEmotionScore text now s))) = length (emotionHistory s) + 1
   \<and> emotionScore (snd (updateEmotionScore text now s)) = fst (updateEmotionScore text now s)
   \<and> (response (post_api_chat icfTags client now (Some body) s) = ServerError500 \<longrightarrow>
        state_after (post_api_chat icfTags client now (Some body) s) =
          snd (updateEmotionScore (message_or_empty body) now s)
        \<and> emotionHistory (state_after (post_api_chat icfTags client now (Some body) s)) =
            emotionHistory s @
              [\<lparr>time = now, score = fst (updateEmotionScore (message_or_empty body) now s)\<rparr>]
        \<and> emotionScore (state_after (post_api_chat icfTags client now (Some body) s)) =
            fst (updateEmotionScore (message_or_empty body) now s))"
  by (simp add: state_after_post_api_chat updateEmotionScore_state)

theorem update_appends_and_survives_failure_witness:
  "response (post_api_chat sample_icfTags completion_down_client 3
       (Some \<lparr>message = Some msg_five_negative\<rparr>) initial_state) = ServerError500
   \<and> state_after (post_api_chat sample_icfTags completion_down_client 3
       (Some \<lparr>message = Some msg_five_negative\<rparr>) initial_state) =
       \<lparr>emotionScore = 45, emotionHistory = [\<lparr>time = 3, score = 45\<rparr>]\<rparr>
   \<and> response (post_api_chat sample_icfTags speech_down_client 4
       (Some \<lparr>message = Some msg_crisis\<rparr>) \<lparr>emotionScore = 45, emotionHistory = [\<lparr>time = 3, score = 45\<rparr>]\<rparr>)
       = ServerError500
   \<and> state_after (post_api_chat sample_icfTags speech_down_client 4
       (Some \<lparr>message = Some msg_crisis\<rparr>) \<lparr>emotionScore = 45, emotionHistory = [\<lparr>time = 3, score = 45\<rparr>]\<rparr>) =
       \<lparr>emotionScore = 40, emotionHistory = [\<lparr>time = 3, score = 45\<rparr>, \<lparr>time = 4, score = 40\<rparr>]\<rparr>"
proof -
  have d5: "\<not> detectDanger (message_or_empty \<lparr>message = Some msg_five_negative\<rparr>)"
    by (simp add: message_or_empty_def detectDanger_def dangerWords_def msg_five_negative_def)
  have dc: "detectDanger (message_or_empty \<lparr>message = Some msg_crisis\<rparr>)"
    by (simp add: message_or_empty_def detectDanger_def dangerWords_def msg_crisis_def)
  have u5: "updateEmotionScore msg_five_negative 3 initial_state =
      (45, \<lparr>emotionScore = 45, emotionHistory = [\<lparr>time = 3, score = 45\<rparr>]\<rparr>)"
    by (simp add: updateEmotionScore_def initial_state_def msg_five_negative_def
        negativeWords_def positiveWords_def Let_def)
  have uc: "updateEmotionScore msg_crisis 4 \<lparr>emotionScore = 45, emotionHistory = [\<lparr>time = 3, score = 45\<rparr>]\<rparr> =
      (40, \<lparr>emotionScore = 40, emotionHistory = [\<lparr>time = 3, score = 45\<rparr>, \<lparr>time = 4, score = 40\<rparr>]\<rparr>)"
    by (simp add: updateEmotionScore_def msg_crisis_def negativeWords_def positiveWords_def Let_def)
  have r5: "response (post_api_chat sample_icfTags completion_down_client 3
       (Some \<lparr>message = Some msg_five_negative\<rparr>) initial_state) = ServerError500"
  proof -
    have "chat_completions_create completion_down_client request = Inl Thrown" for request
      by (simp add: completion_down_client_def)
    from post_api_chat_completion_throws [OF d5 this] show ?thesis by simp
  qed
  have rc: "response (post_api_chat sample_icfTags speech_down_client 4
       (Some \<lparr>message = Some msg_crisis\<rparr>) \<lparr>emotionScore = 45, emotionHistory = [\<lparr>time = 3, score = 45\<rparr>]\<rparr>)
       = ServerError500"
  proof -
    have "audio_speech_create speech_down_client request = Inl Thrown" for request
      by (simp add: speech_down_client_def)
    with post_api_chat_danger [OF dc, of sample_icfTags speech_down_client 4] show ?thesis
      by simp
  qed
  from update_appends_and_survives_failure [of msg_five_negative 3 initial_state sample_icfTags
      completion_down_client "\<lparr>message = Some msg_five_negative\<rparr>"] r5 u5
  have s5: "state_after (post_api_chat sample_icfTags completion_down_client 3
       (Some \<lparr>message = Some msg_five_negative\<rparr>) initial_state) =
       \<lparr>emotionScore = 45, emotionHistory = [\<lparr>time = 3, score = 45\<rparr>]\<rparr>"
    by (simp add: message_or_empty_def)
  from update_appends_and_survives_failure [of msg_crisis 4
      "\<lparr>emotionScore = 45, emotionHistory = [\<lparr>time = 3, score = 45\<rparr>]\<rparr>" sample_icfTags
      speech_down_client "\<lparr>message = Some msg_crisis\<rparr>"] rc uc
  have sc: "state_after (post_api_chat sample_icfTags speech_down_client 4
       (Some \<lparr>message = Some msg_crisis\<rparr>) \<lparr>emotionScore = 45, emotionHistory = [\<lparr>time = 3, score = 45\<rparr>]\<rparr>) =
       \<lparr>emotionScore = 40, emotionHistory = [\<lparr>time = 3, score = 45\<rparr>, \<lparr>time = 4, score = 40\<rparr>]\<rparr>"
    by (simp add: message_or_empty_def)
  from r5 s5 rc sc show ?thesis by simp
qed

end
